theory Spec2Isabelle
  imports Main "HOL-Library.Word"
begin

unbundle bit_operations_syntax

section \<open>Values shared by the whole package\<close>

type_synonym byte = "8 word"
type_synonym uint32 = "32 word"

text \<open>
  Go's \<open>error\<close> values that the package creates or passes on. \<open>connectionError\<close> and
  \<open>contentIsTooLarge\<close> are the two package variables of read_write.go; \<open>EOF\<close> and
  \<open>ErrUnexpectedEOF\<close> are the errors of \<open>io.ReadFull\<close>; \<open>NetError t msg\<close> is a
  \<open>net.Error\<close> whose \<open>Timeout()\<close> is \<open>t\<close>; \<open>ErrorString\<close> is the result of
  \<open>errors.New\<close> and \<open>errors.Errorf\<close>.
\<close>

datatype error =
    connectionError
  | contentIsTooLarge
  | EOF
  | ErrUnexpectedEOF
  | NetError bool string
  | ErrorString string

text \<open>
  A Go call either returns or panics. A function of Go type \<open>(T, error)\<close> returns
  \<open>Returns (Inl err)\<close> or \<open>Returns (Inr v)\<close>; a run-time panic is \<open>Panics msg\<close>.
\<close>

datatype 'a outcome = Returns 'a | Panics string

section \<open>Framed transport (read_write.go)\<close>

text \<open>
  The state of a \<open>net.Conn\<close> as far as the package sees it: the bytes that arrive before
  the stream stops delivering, the error that a read returns once no byte is left
  (\<open>EOF\<close>, or a timeout), the bytes written so far, the result of setting a deadline,
  and how many more bytes the peer accepts (\<open>None\<close>: no limit) with the error of a write
  beyond that.
\<close>

record conn =
  incoming :: "byte list"
  read_end :: error
  outgoing :: "byte list"
  deadline_err :: "error option"
  wr_quota :: "nat option"
  wr_error :: error

text \<open>\<open>io.ReadFull\<close> on a buffer of \<open>n\<close> bytes.\<close>

definition ReadFull :: "conn \<Rightarrow> nat \<Rightarrow> (error + byte list) \<times> conn" where
  "ReadFull c n =
     (if n \<le> length (incoming c)
      then (Inr (take n (incoming c)), c\<lparr>incoming := drop n (incoming c)\<rparr>)
      else (Inl (if incoming c \<noteq> [] \<and> read_end c = EOF then ErrUnexpectedEOF
                 else read_end c),
            c\<lparr>incoming := []\<rparr>))"

text \<open>\<open>conn.Write\<close>.\<close>

definition conn_Write :: "conn \<Rightarrow> byte list \<Rightarrow> error option \<times> conn" where
  "conn_Write c bs =
     (case wr_quota c of
        None \<Rightarrow> (None, c\<lparr>outgoing := outgoing c @ bs\<rparr>)
      | Some q \<Rightarrow>
          if length bs \<le> q
          then (None, c\<lparr>outgoing := outgoing c @ bs, wr_quota := Some (q - length bs)\<rparr>)
          else (Some (wr_error c),
                c\<lparr>outgoing := outgoing c @ take q bs, wr_quota := Some 0\<rparr>))"

text \<open>\<open>binary.BigEndian.PutUint32\<close> and \<open>binary.BigEndian.Uint32\<close>.\<close>

definition PutUint32 :: "uint32 \<Rightarrow> byte list" where
  "PutUint32 v = [ucast (drop_bit 24 v), ucast (drop_bit 16 v), ucast (drop_bit 8 v), ucast v]"

definition Uint32 :: "byte list \<Rightarrow> uint32" where
  "Uint32 b = ucast (b ! 3) OR push_bit 8 (ucast (b ! 2)) OR push_bit 16 (ucast (b ! 1))
              OR push_bit 24 (ucast (b ! 0))"

text \<open>\<open>binary.Read(conn, binary.BigEndian, &totalSize)\<close> for a \<open>uint32\<close>.\<close>

definition binary_Read :: "conn \<Rightarrow> (error + uint32) \<times> conn" where
  "binary_Read c =
     (case ReadFull c 4 of
        (Inl err, c') \<Rightarrow> (Inl err, c')
      | (Inr bs, c') \<Rightarrow> (Inr (Uint32 bs), c'))"

text \<open>\<open>binary.Write(conn, binary.BigEndian, v)\<close> for a \<open>uint32\<close>.\<close>

definition binary_Write :: "conn \<Rightarrow> uint32 \<Rightarrow> error option \<times> conn" where
  "binary_Write c v = conn_Write c (PutUint32 v)"

definition MaxUint32 :: int where
  "MaxUint32 = 2 ^ 32 - 1"

text \<open>
  \<open>ReadMessage\<close>. \<open>int\<close> is Go's 64-bit \<open>int\<close>: \<open>int(totalSize) - headerSize\<close> cannot
  overflow, and is negative when the header announces fewer than four bytes; \<open>make\<close>
  panics on a negative length.
\<close>

definition ReadMessage :: "conn option \<Rightarrow> (error + byte list) outcome \<times> conn option" where
  "ReadMessage co =
     (case co of
        None \<Rightarrow> (Returns (Inl connectionError), None)
      | Some c \<Rightarrow>
          (case binary_Read c of
             (Inl err, c1) \<Rightarrow> (Returns (Inl err), Some c1)
           | (Inr totalSize, c1) \<Rightarrow>
               (let headerSize = 4;
                    contentSize = uint totalSize - headerSize
                in case deadline_err c1 of
                     Some err \<Rightarrow> (Returns (Inl err), Some c1)
                   | None \<Rightarrow>
                       if contentSize < 0
                       then (Panics ''makeslice: len out of range'', Some c1)
                       else (case ReadFull c1 (nat contentSize) of
                               (Inl err, c2) \<Rightarrow> (Returns (Inl err), Some c2)
                             | (Inr buf, c2) \<Rightarrow> (Returns (Inr buf), Some c2)))))"

text \<open>
  \<open>WriteMessage\<close>. The length of a slice is far below \<open>2^63 - 4\<close>, so
  \<open>contentSize + headerSize\<close> is computed without overflow. The function does not
  test \<open>conn\<close> for nil: the first method call on a nil interface panics.
\<close>

definition WriteMessage :: "conn option \<Rightarrow> byte list \<Rightarrow> error option outcome \<times> conn option" where
  "WriteMessage co data =
     (let contentSize = int (length data);
          headerSize = 4;
          totalSize = contentSize + headerSize
      in if totalSize > MaxUint32 then (Returns (Some contentIsTooLarge), co)
         else (case co of
                 None \<Rightarrow> (Panics ''invalid memory address or nil pointer dereference'', None)
               | Some c \<Rightarrow>
                   (case deadline_err c of
                      Some err \<Rightarrow> (Returns (Some err), Some c)
                    | None \<Rightarrow>
                        (case binary_Write c (word_of_int totalSize) of
                           (Some err, c1) \<Rightarrow> (Returns (Some err), Some c1)
                         | (None, c1) \<Rightarrow>
                             (case conn_Write c1 data of
                                (Some err, c2) \<Rightarrow> (Returns (Some err), Some c2)
                              | (None, c2) \<Rightarrow> (Returns None, Some c2))))))"

text \<open>
  A pipe: the bytes the writing end has written become the bytes that arrive at the
  reading end.
\<close>

definition pipe :: "conn \<Rightarrow> conn \<Rightarrow> conn" where
  "pipe w r = r\<lparr>incoming := incoming r @ outgoing w\<rparr>"

text \<open>A connection in working order with nothing read or written yet.\<close>

definition fresh_conn :: conn where
  "fresh_conn = \<lparr>incoming = [], read_end = EOF, outgoing = [], deadline_err = None,
                  wr_quota = None, wr_error = EOF\<rparr>"

section \<open>XML trees (encoding/xml, xmltree)\<close>

text \<open>
  \<open>xml.Name\<close>, \<open>xml.Attr\<close> and \<open>xmltree.Element\<close> with the fields the package reads
  or writes: the start element's name and attributes, and the child elements.
\<close>

datatype xml_Name = xml_Name (Space: string) (Local: string)

datatype xml_Attr = xml_Attr (AttrName: xml_Name) (Value: string)

datatype Element = Element (Name: xml_Name) (Attr: "xml_Attr list") (Children: "Element list")

text \<open>
  \<open>Element.SetAttr(space, local, value)\<close> of xmltree: the first attribute with that
  local name (and that space, when one is given) gets the value; without such an
  attribute a new one is appended.
\<close>

fun SetAttr :: "xml_Attr list \<Rightarrow> string \<Rightarrow> string \<Rightarrow> string \<Rightarrow> xml_Attr list" where
  "SetAttr [] space local v = [xml_Attr (xml_Name space local) v]"
| "SetAttr (a # as) space local v =
     (if Local (AttrName a) = local \<and> (space = [] \<or> Space (AttrName a) = space)
      then xml_Attr (AttrName a) v # as
      else a # SetAttr as space local v)"

text \<open>\<open>strings.Join\<close>.\<close>

fun Join :: "string list \<Rightarrow> string \<Rightarrow> string" where
  "Join [] sep = []"
| "Join [x] sep = x"
| "Join (x # y # ys) sep = x @ sep @ Join (y # ys) sep"

section \<open>Namespace constants (package types)\<close>

text \<open>
  Modelled from the spec: the namespace constants \<open>types.NameSpaceDomain\<close>,
  \<open>NameSpaceHost\<close>, \<open>NameSpaceContact\<close>, \<open>NameSpaceDNSSEC10\<close>, \<open>NameSpaceDNSSEC11\<close>,
  \<open>NameSpaceIIS12\<close> and \<open>NameSpaceEPP10\<close> of the package \<open>types\<close>, which the source
  imports and which is not among the source files. The spec gives the object namespaces
  as \<open>urn:ietf:params:xml:ns:domain-1.0\<close>, \<open>...:host-1.0\<close>, \<open>...:contact-1.0\<close>,
  \<open>...:secDNS-1.0\<close>, \<open>...:secDNS-1.1\<close> and the vendor extension \<open>iis-1.2\<close>.
\<close>

definition NameSpaceEPP10 :: string where
  "NameSpaceEPP10 = ''urn:ietf:params:xml:ns:epp-1.0''"

definition NameSpaceDomain :: string where
  "NameSpaceDomain = ''urn:ietf:params:xml:ns:domain-1.0''"

definition NameSpaceHost :: string where
  "NameSpaceHost = ''urn:ietf:params:xml:ns:host-1.0''"

definition NameSpaceContact :: string where
  "NameSpaceContact = ''urn:ietf:params:xml:ns:contact-1.0''"

definition NameSpaceDNSSEC10 :: string where
  "NameSpaceDNSSEC10 = ''urn:ietf:params:xml:ns:secDNS-1.0''"

definition NameSpaceDNSSEC11 :: string where
  "NameSpaceDNSSEC11 = ''urn:ietf:params:xml:ns:secDNS-1.1''"

definition NameSpaceIIS12 :: string where
  "NameSpaceIIS12 = ''urn:se:iis:xml:epp:iis-1.2''"

section \<open>Router (mux.go)\<close>

definition nsEPP :: string where
  "nsEPP = ''urn:ietf:params:xml:ns:epp-1.0''"

text \<open>
  A \<open>HandlerFunc\<close> receives the session and the payload. The session is a pointer: what
  the handler does to it is the second component of the result. \<open>'s\<close> is the session
  as the handler sees it.
\<close>

type_synonym 's HandlerFunc = "'s \<Rightarrow> byte list \<Rightarrow> (error + byte list) \<times> 's"

record 's Mux =
  handlers :: "string \<rightharpoonup> 's HandlerFunc"
  namespaceAliases :: "string \<rightharpoonup> string"

definition NewMux :: "'s Mux" where
  "NewMux = \<lparr>handlers = Map.empty,
             namespaceAliases = [NameSpaceDomain \<mapsto> ''domain'',
                                 NameSpaceHost \<mapsto> ''host'',
                                 NameSpaceContact \<mapsto> ''contact'']\<rparr>"

definition AddNamespaceAlias :: "'s Mux \<Rightarrow> string \<Rightarrow> string \<Rightarrow> 's Mux" where
  "AddNamespaceAlias m ns alias = m\<lparr>namespaceAliases := (namespaceAliases m)(ns \<mapsto> alias)\<rparr>"

definition AddHandler :: "'s Mux \<Rightarrow> string \<Rightarrow> 's HandlerFunc \<Rightarrow> 's Mux" where
  "AddHandler m path handler = m\<lparr>handlers := (handlers m)(path \<mapsto> handler)\<rparr>"

text \<open>
  The loop of \<open>buildPath\<close> over the children of the command element, with \<open>pathParts\<close>
  as it stands. \<open>extension\<close> and \<open>clTRID\<close> continue with the next child; any other
  child ends the loop. \<open>child.Children[0]\<close> panics when the child has no child element.
\<close>

fun buildPath_loop :: "(string \<rightharpoonup> string) \<Rightarrow> string list \<Rightarrow> Element list \<Rightarrow> string list outcome" where
  "buildPath_loop aliases pathParts [] = Returns pathParts"
| "buildPath_loop aliases pathParts (child # rest) =
     (let name = Local (Name child)
      in if name = ''extension'' \<or> name = ''clTRID''
         then buildPath_loop aliases pathParts rest
         else if name = ''login'' \<or> name = ''logout'' \<or> name = ''poll''
         then Returns (pathParts @ [name])
         else (case Children child of
                 [] \<Rightarrow> Panics ''index out of range [0] with length 0''
               | first # _ \<Rightarrow>
                   (let ns = Space (Name first);
                        ns = (case aliases ns of Some alias \<Rightarrow> alias | None \<Rightarrow> ns)
                    in Returns (pathParts @ [name, ns]))))"

definition buildPath :: "'s Mux \<Rightarrow> Element \<Rightarrow> (error + string) outcome" where
  "buildPath m root =
     (if Space (Name root) \<noteq> nsEPP \<or> Local (Name root) \<noteq> ''epp''
      then Returns (Inl (ErrorString ''missing <epp> tag''))
      else if length (Children root) \<noteq> 1
      then Returns (Inl (ErrorString ''<epp> should contain one element''))
      else (let el = Children root ! 0
            in if Local (Name el) \<noteq> ''command''
               then Returns (Inr (Local (Name el)))
               else (case buildPath_loop (namespaceAliases m) [''command''] (Children el) of
                       Panics p \<Rightarrow> Panics p
                     | Returns pathParts \<Rightarrow> Returns (Inr (Join pathParts ''/'')))))"

text \<open>
  \<open>Mux.Handle\<close>. \<open>xmltree.Parse\<close> is a parameter. The result holds what \<open>Handle\<close>
  returns and the session as the invoked handler, if any, leaves it.
\<close>

definition Handle ::
  "(byte list \<Rightarrow> error + Element) \<Rightarrow> 's Mux \<Rightarrow> 's \<Rightarrow> byte list
   \<Rightarrow> (error + byte list) outcome \<times> 's" where
  "Handle Parse m s d =
     (case Parse d of
        Inl err \<Rightarrow> (Returns (Inl err), s)
      | Inr root \<Rightarrow>
          (case buildPath m root of
             Panics p \<Rightarrow> (Panics p, s)
           | Returns (Inl err) \<Rightarrow> (Returns (Inl err), s)
           | Returns (Inr path) \<Rightarrow>
               (case handlers m path of
                  None \<Rightarrow> (Returns (Inl (ErrorString (''no handler for '' @ path))), s)
                | Some h \<Rightarrow> (case h s d of (r, s') \<Rightarrow> (Returns r, s')))))"

subsection \<open>Vocabulary of the dispatch rules\<close>

text \<open>
  The words of the routing rules: a child of the command element is skipped when it is
  \<open>extension\<close> or \<open>clTRID\<close>; the first remaining child is the one that classifies;
  \<open>login\<close>, \<open>logout\<close> and \<open>poll\<close> are routed by their name alone; for any other
  verb the object alias is the registered alias of the namespace of the verb's first
  child, or that namespace itself.
\<close>

definition skipped :: "Element \<Rightarrow> bool" where
  "skipped c \<longleftrightarrow> Local (Name c) = ''extension'' \<or> Local (Name c) = ''clTRID''"

definition first_remaining :: "Element list \<Rightarrow> Element option" where
  "first_remaining cs = find (\<lambda>c. \<not> skipped c) cs"

definition session_command :: "Element \<Rightarrow> bool" where
  "session_command c \<longleftrightarrow>
     Local (Name c) = ''login'' \<or> Local (Name c) = ''logout'' \<or> Local (Name c) = ''poll''"

definition object_alias :: "(string \<rightharpoonup> string) \<Rightarrow> Element \<Rightarrow> string" where
  "object_alias aliases first =
     (case aliases (Space (Name first)) of Some alias \<Rightarrow> alias | None \<Rightarrow> Space (Name first))"

subsection \<open>Example documents\<close>

definition epp_doc :: "Element list \<Rightarrow> Element" where
  "epp_doc cs = Element (xml_Name nsEPP ''epp'') [] cs"

definition check_domain_doc :: Element where
  "check_domain_doc =
     epp_doc [Element (xml_Name nsEPP ''command'') []
       [Element (xml_Name nsEPP ''check'') []
          [Element (xml_Name NameSpaceDomain ''check'') [] []],
        Element (xml_Name nsEPP ''clTRID'') [] []]]"

definition empty_check_doc :: Element where
  "empty_check_doc =
     epp_doc [Element (xml_Name nsEPP ''command'') []
       [Element (xml_Name nsEPP ''clTRID'') [] [],
        Element (xml_Name nsEPP ''check'') [] []]]"

definition hello_doc :: Element where
  "hello_doc = epp_doc [Element (xml_Name nsEPP ''hello'') [] []]"

definition counting_handler :: "nat HandlerFunc" where
  "counting_handler s d = (Inr d, Suc s)"

section \<open>Envelope encoder (read_write.go)\<close>

definition rootLocalName :: string where
  "rootLocalName = ''epp''"

text \<open>\<open>[]byte(s)\<close> for a string of ASCII characters.\<close>

definition bytes_of :: "string \<Rightarrow> byte list" where
  "bytes_of s = map (\<lambda>c. of_nat (of_char c)) s"

text \<open>\<open>xml.Header\<close>: the XML declaration and a newline.\<close>

definition xml_Header :: "byte list" where
  \<open>xml_Header = bytes_of (''<?xml version="1.0" encoding="UTF-8"?>'' @ [CHR 0x0A])\<close>

definition ServerXMLAttributes :: "xml_Attr list" where
  "ServerXMLAttributes =
     [xml_Attr (xml_Name [] ''xmlns'') ''urn:ietf:params:xml:ns:epp-1.0'',
      xml_Attr (xml_Name [] ''xmlns:xsi'') ''http://www.w3.org/2001/XMLSchema-instance'',
      xml_Attr (xml_Name [] ''xsi:schemaLocation'') ''urn:ietf:params:xml:ns:epp-1.0 epp-1.0.xsd'']"

definition ClientXMLAttributes :: "xml_Attr list" where
  "ClientXMLAttributes = [xml_Attr (xml_Name [] ''xmlns'') NameSpaceEPP10]"

text \<open>The map \<open>namespaceAliases\<close> that \<open>addNameSpaceAlias\<close> builds on every call.\<close>

definition encoder_namespaceAliases :: "string \<rightharpoonup> string" where
  "encoder_namespaceAliases =
     [NameSpaceDomain \<mapsto> ''domain'',
      NameSpaceHost \<mapsto> ''host'',
      NameSpaceContact \<mapsto> ''contact'',
      NameSpaceDNSSEC10 \<mapsto> ''sed'',
      NameSpaceDNSSEC11 \<mapsto> ''sec'',
      NameSpaceIIS12 \<mapsto> ''iis'']"

text \<open>
  \<open>addNameSpaceAlias\<close>. The function changes the element behind the pointer and returns
  the pointer, or nil for a namespace without alias; the result is \<open>None\<close> for nil and
  otherwise the element as changed. The loop over the children stores
  \<open>*addNameSpaceAlias(&child, nsAdded)\<close>: dereferencing nil panics.
\<close>

primrec addNameSpaceAlias :: "Element \<Rightarrow> bool \<Rightarrow> Element option outcome"
  and addNameSpaceAlias_children :: "Element list \<Rightarrow> bool \<Rightarrow> Element list outcome" where
  "addNameSpaceAlias (Element name attr children) nsAdded =
     (case (if Space name \<noteq> []
            then (case encoder_namespaceAliases (Space name) of
                    None \<Rightarrow> None
                  | Some alias \<Rightarrow>
                      Some (xml_Name (Space name) (alias @ '':'' @ Local name),
                            if \<not> nsAdded then SetAttr attr [] (''xmlns:'' @ alias) (Space name)
                            else attr,
                            True))
            else Some (name, attr, nsAdded)) of
        None \<Rightarrow> Returns None
      | Some (name', attr', nsAdded') \<Rightarrow>
          (case addNameSpaceAlias_children children nsAdded' of
             Panics p \<Rightarrow> Panics p
           | Returns children' \<Rightarrow> Returns (Some (Element name' attr' children'))))"
| "addNameSpaceAlias_children [] nsAdded = Returns []"
| "addNameSpaceAlias_children (child # rest) nsAdded =
     (case addNameSpaceAlias child nsAdded of
        Panics p \<Rightarrow> Panics p
      | Returns None \<Rightarrow> Panics ''invalid memory address or nil pointer dereference''
      | Returns (Some child') \<Rightarrow>
          (case addNameSpaceAlias_children rest nsAdded of
             Panics p \<Rightarrow> Panics p
           | Returns rest' \<Rightarrow> Returns (child' # rest')))"

text \<open>
  The part of \<open>Encode\<close> between parsing and marshalling: the call of
  \<open>addNameSpaceAlias\<close>, whose result \<open>Encode\<close> ignores (a nil result leaves the document
  as it was), and the replacement of the root's start element.
\<close>

definition Encode_document :: "Element \<Rightarrow> xml_Attr list \<Rightarrow> Element outcome" where
  "Encode_document document xmlAttributes =
     (case addNameSpaceAlias document False of
        Panics p \<Rightarrow> Panics p
      | Returns r \<Rightarrow>
          (let document' = (case r of None \<Rightarrow> document | Some d \<Rightarrow> d)
           in Returns (Element (xml_Name [] rootLocalName) xmlAttributes (Children document'))))"

text \<open>
  \<open>Encode\<close>. \<open>xml.Marshal\<close>, \<open>xmltree.Parse\<close> and \<open>xmltree.MarshalIndent\<close> are
  parameters.
\<close>

definition Encode ::
  "('a \<Rightarrow> error + byte list) \<Rightarrow> (byte list \<Rightarrow> error + Element)
   \<Rightarrow> (Element \<Rightarrow> string \<Rightarrow> string \<Rightarrow> byte list)
   \<Rightarrow> 'a \<Rightarrow> xml_Attr list \<Rightarrow> (error + byte list) outcome" where
  "Encode Marshal Parse MarshalIndent data xmlAttributes =
     (case Marshal data of
        Inl err \<Rightarrow> Returns (Inl err)
      | Inr b \<Rightarrow>
          (case Parse b of
             Inl err \<Rightarrow> Returns (Inl err)
           | Inr document \<Rightarrow>
               (case Encode_document document xmlAttributes of
                  Panics p \<Rightarrow> Panics p
                | Returns document' \<Rightarrow>
                    (let xmlBytes = MarshalIndent document' [] ''  ''
                     in Returns (Inr (xml_Header @ xmlBytes))))))"

subsection \<open>Vocabulary of the alias rules\<close>

text \<open>
  An element is aliased when its namespace has an entry in the encoder's map. The element
  at a position is found by the indices of the children to descend into. An element has
  an aliased element above it when some element on the way from the root down to its
  parent is aliased. A document is within the encoder's namespaces when every element's
  namespace is empty or has an alias.
\<close>

definition aliased :: "Element \<Rightarrow> bool" where
  "aliased e \<longleftrightarrow> encoder_namespaceAliases (Space (Name e)) \<noteq> None"

fun subtree :: "Element \<Rightarrow> nat list \<Rightarrow> Element option" where
  "subtree e [] = Some e"
| "subtree e (i # p) =
     (if i < length (Children e) then subtree (Children e ! i) p else None)"

fun aliased_above :: "Element \<Rightarrow> nat list \<Rightarrow> bool" where
  "aliased_above e [] = False"
| "aliased_above e (i # p) =
     (aliased e \<or> (i < length (Children e) \<and> aliased_above (Children e ! i) p))"

primrec all_known :: "Element \<Rightarrow> bool"
  and all_known_list :: "Element list \<Rightarrow> bool" where
  "all_known (Element name attr children) =
     ((Space name = [] \<or> encoder_namespaceAliases (Space name) \<noteq> None)
      \<and> all_known_list children)"
| "all_known_list [] = True"
| "all_known_list (c # cs) = (all_known c \<and> all_known_list cs)"

text \<open>
  What the rewrite does to one element, given whether a declaration was already made
  above it: an element without alias keeps its name and attributes; an aliased element
  gets the name \<open>alias:local\<close> and, unless a declaration was made above, the attribute
  \<open>xmlns:alias\<close> bound to its namespace.
\<close>

definition rewritten :: "bool \<Rightarrow> Element \<Rightarrow> Element \<Rightarrow> bool" where
  "rewritten declared e e' \<longleftrightarrow>
     (case encoder_namespaceAliases (Space (Name e)) of
        None \<Rightarrow> Name e' = Name e \<and> Attr e' = Attr e
      | Some alias \<Rightarrow>
          Name e' = xml_Name (Space (Name e)) (alias @ '':'' @ Local (Name e))
          \<and> Attr e' = (if declared then Attr e
                        else SetAttr (Attr e) [] (''xmlns:'' @ alias) (Space (Name e))))"

subsection \<open>Example payloads\<close>

definition aliased_root_doc :: Element where
  "aliased_root_doc =
     Element (xml_Name NameSpaceDomain ''infData'') []
       [Element (xml_Name NameSpaceDomain ''name'') [] []]"

definition info_response_doc :: Element where
  "info_response_doc =
     Element (xml_Name [] ''Response'') []
       [Element (xml_Name [] ''resData'') []
          [Element (xml_Name NameSpaceDomain ''infData'') []
             [Element (xml_Name NameSpaceDomain ''name'') [] []]]]"

definition unknown_child_doc :: Element where
  "unknown_child_doc =
     Element (xml_Name [] ''Response'') []
       [Element (xml_Name NameSpaceEPP10 ''response'') [] []]"

definition verb_doc :: "string \<Rightarrow> Element \<Rightarrow> Element" where
  "verb_doc verb first =
     epp_doc [Element (xml_Name nsEPP ''command'') [] [Element (xml_Name nsEPP verb) [] [first]]]"

section \<open>Result codes (result.go)\<close>

type_synonym ResultCode = int

definition EppOk :: ResultCode where "EppOk = 1000"
definition EppOkBye :: ResultCode where "EppOkBye = 1500"
definition EppCommandFailed :: ResultCode where "EppCommandFailed = 2400"
definition EppCommandFailedBye :: ResultCode where "EppCommandFailedBye = 2500"
definition EppAuthFailedBye :: ResultCode where "EppAuthFailedBye = 2501"
definition EppSessionLimitExceededBye :: ResultCode where "EppSessionLimitExceededBye = 2502"

definition Code :: "ResultCode \<Rightarrow> int" where
  "Code rs = rs"

definition IsBye :: "ResultCode \<Rightarrow> bool" where
  "IsBye rs =
     (if rs = EppOkBye \<or> rs = EppCommandFailedBye \<or> rs = EppAuthFailedBye
         \<or> rs = EppSessionLimitExceededBye
      then True else False)"

section \<open>Session engine\<close>

text \<open>
  A session: the connection, whether \<open>run\<close> has closed it, the callbacks of the
  configuration, and \<open>user\<close>, which stands for everything the callbacks can change
  through the session pointer they receive. The validator is \<open>None\<close> for a nil
  \<open>Validator\<close>; \<open>Validate\<close> returns an error or nil. The two timeouts only arm
  timers, whose firing is part of the environment below.
\<close>

type_synonym 'u GreetFunc = "'u \<Rightarrow> (error + byte list) \<times> 'u"

record 'u Session =
  conn :: conn
  closed :: bool
  greeting :: "'u GreetFunc"
  handler :: "'u HandlerFunc"
  onCommands :: "('u \<Rightarrow> 'u) list"
  validator :: "(byte list \<Rightarrow> error option) option"
  user :: 'u

text \<open>\<open>Session.validate\<close>; the logging of the schema errors is left out.\<close>

definition validate :: "'u Session \<Rightarrow> byte list \<Rightarrow> error option" where
  "validate s data =
     (case validator s of
        None \<Rightarrow> None
      | Some v \<Rightarrow> (case v data of Some err \<Rightarrow> Some err | None \<Rightarrow> None))"

text \<open>
  What the environment decides in one pass of the loop of \<open>run\<close>: which case the
  \<open>select\<close> takes (a closed \<open>stopChan\<close>, a timer that fired, or \<open>default\<close>), and the
  bytes that reach the connection before the read of this pass gives up.
\<close>

datatype select_case = stopChan | sessionTimeout | idleTimeout | default_case

record tick =
  selected :: select_case
  arrives :: "byte list"

text \<open>Where \<open>run\<close> stands: still in its loop, returned, or stopped by a panic.\<close>

datatype progress = Looping | Returned "error option" | Panicked string

text \<open>\<open>netErr, ok := err.(net.Error); ok && netErr.Timeout()\<close>.\<close>

fun is_timeout :: "error \<Rightarrow> bool" where
  "is_timeout (NetError t msg) = t"
| "is_timeout _ = False"

text \<open>The connection after a call that was given a connection.\<close>

definition conn_after :: "conn option \<Rightarrow> conn \<Rightarrow> conn" where
  "conn_after co c = (case co of Some c' \<Rightarrow> c' | None \<Rightarrow> c)"

text \<open>
  One pass of the loop of \<open>run\<close>: the \<open>select\<close>, the deadline, the read, the
  observers of \<open>onCommands\<close> in their order, the validation of the message, the handler,
  the validation of the response, the write.
\<close>

definition loop_body :: "'u Session \<Rightarrow> tick \<Rightarrow> progress \<times> 'u Session" where
  "loop_body s t =
     (case selected t of
        stopChan \<Rightarrow> (Returned None, s)
      | sessionTimeout \<Rightarrow> (Returned None, s)
      | idleTimeout \<Rightarrow> (Returned None, s)
      | default_case \<Rightarrow>
          (let c = (conn s)\<lparr>incoming := incoming (conn s) @ arrives t\<rparr>
           in case deadline_err c of
                Some err \<Rightarrow> (Returned (Some err), s\<lparr>conn := c\<rparr>)
              | None \<Rightarrow>
                  (case ReadMessage (Some c) of
                     (Panics p, co) \<Rightarrow> (Panicked p, s\<lparr>conn := conn_after co c\<rparr>)
                   | (Returns (Inl err), co) \<Rightarrow>
                       if is_timeout err then (Looping, s\<lparr>conn := conn_after co c\<rparr>)
                       else (Returned (Some err), s\<lparr>conn := conn_after co c\<rparr>)
                   | (Returns (Inr message), co) \<Rightarrow>
                       (let c1 = conn_after co c;
                            u1 = fold (\<lambda>f u. f u) (onCommands s) (user s)
                        in case validate s message of
                             Some err \<Rightarrow> (Returned (Some err), s\<lparr>conn := c1, user := u1\<rparr>)
                           | None \<Rightarrow>
                               (case handler s u1 message of
                                  (Inl err, u2) \<Rightarrow>
                                    (Returned (Some err), s\<lparr>conn := c1, user := u2\<rparr>)
                                | (Inr response, u2) \<Rightarrow>
                                    (case validate s response of
                                       Some err \<Rightarrow>
                                         (Returned (Some err), s\<lparr>conn := c1, user := u2\<rparr>)
                                     | None \<Rightarrow>
                                         (case WriteMessage (Some c1) response of
                                            (Panics p, co') \<Rightarrow>
                                              (Panicked p,
                                               s\<lparr>conn := conn_after co' c1, user := u2\<rparr>)
                                          | (Returns (Some err), co') \<Rightarrow>
                                              (Returned (Some err),
                                               s\<lparr>conn := conn_after co' c1, user := u2\<rparr>)
                                          | (Returns None, co') \<Rightarrow>
                                              (Looping,
                                               s\<lparr>conn := conn_after co' c1, user := u2\<rparr>))))))))"

text \<open>The loop, for as many passes as the environment is given for.\<close>

fun run_loop :: "'u Session \<Rightarrow> tick list \<Rightarrow> progress \<times> 'u Session" where
  "run_loop s [] = (Looping, s)"
| "run_loop s (t # ts) =
     (case loop_body s t of
        (Looping, s') \<Rightarrow> run_loop s' ts
      | (Returned r, s') \<Rightarrow> (Returned r, s')
      | (Panicked p, s') \<Rightarrow> (Panicked p, s'))"

text \<open>\<open>run\<close> up to the loop: the greeting, its validation and its write.\<close>

definition run_greeting :: "'u Session \<Rightarrow> progress \<times> 'u Session" where
  "run_greeting s =
     (case greeting s (user s) of
        (Inl err, u) \<Rightarrow> (Returned (Some err), s\<lparr>user := u\<rparr>)
      | (Inr response, u) \<Rightarrow>
          (case validate s response of
             Some err \<Rightarrow> (Returned (Some err), s\<lparr>user := u\<rparr>)
           | None \<Rightarrow>
               (case WriteMessage (Some (conn s)) response of
                  (Panics p, co) \<Rightarrow> (Panicked p, s\<lparr>conn := conn_after co (conn s), user := u\<rparr>)
                | (Returns (Some err), co) \<Rightarrow>
                    (Returned (Some err), s\<lparr>conn := conn_after co (conn s), user := u\<rparr>)
                | (Returns None, co) \<Rightarrow>
                    (Looping, s\<lparr>conn := conn_after co (conn s), user := u\<rparr>))))"

text \<open>
  The deferred \<open>s.conn.Close()\<close> of \<open>run\<close>: it runs when \<open>run\<close> returns or
  panics.
\<close>

definition deferred_Close :: "progress \<times> 'u Session \<Rightarrow> progress \<times> 'u Session" where
  "deferred_Close r =
     (case r of
        (Looping, s) \<Rightarrow> (Looping, s)
      | (Returned e, s) \<Rightarrow> (Returned e, s\<lparr>closed := True\<rparr>)
      | (Panicked p, s) \<Rightarrow> (Panicked p, s\<lparr>closed := True\<rparr>))"

text \<open>\<open>Session.run\<close>.\<close>

definition run :: "'u Session \<Rightarrow> tick list \<Rightarrow> progress \<times> 'u Session" where
  "run s ticks =
     deferred_Close
       (case run_greeting s of
          (Looping, s') \<Rightarrow> run_loop s' ticks
        | (Returned r, s') \<Rightarrow> (Returned r, s')
        | (Panicked p, s') \<Rightarrow> (Panicked p, s'))"

text \<open>The frame of a payload on the wire.\<close>

definition frame :: "byte list \<Rightarrow> byte list" where
  "frame b = PutUint32 (word_of_nat (length b + 4)) @ b"

subsection \<open>Example sessions\<close>

text \<open>A response carrying the result code 1500.\<close>

definition bye_response :: "byte list" where
  \<open>bye_response = bytes_of ''<epp><response><result code="1500"/></response></epp>''\<close>

text \<open>
  A session whose callbacks record their calls in \<open>user\<close>, on a connection whose reads
  time out when nothing has arrived; its handler answers every message with the response
  above.
\<close>

definition logging_session :: "(byte list \<Rightarrow> error option) option \<Rightarrow> string list Session" where
  "logging_session v =
     \<lparr>conn = fresh_conn\<lparr>read_end := NetError True ''i/o timeout''\<rparr>,
      closed = False,
      greeting = (\<lambda>u. (Inr (bytes_of ''<greeting/>''), u)),
      handler = (\<lambda>u d. (Inr bye_response, u @ [''handler''])),
      onCommands = [\<lambda>u. u @ [''observer 1''], \<lambda>u. u @ [''observer 2'']],
      validator = v,
      user = []\<rparr>"

text \<open>A validator that accepts the greeting only.\<close>

definition rejecting_validator :: "byte list \<Rightarrow> error option" where
  "rejecting_validator d =
     (if d = bytes_of ''<greeting/>'' then None else Some (ErrorString ''schema violation''))"

text \<open>The connection of that session once the greeting is written.\<close>

definition greeted_conn :: conn where
  "greeted_conn = fresh_conn\<lparr>read_end := NetError True ''i/o timeout'',
                              outgoing := frame (bytes_of ''<greeting/>'')\<rparr>"

section \<open>Properties of the framed transport\<close>

lemma Uint32_PutUint32: "Uint32 (PutUint32 v) = v"
  unfolding Uint32_def PutUint32_def
  apply (rule bit_word_eqI)
  apply (auto simp: bit_simps)
  subgoal for n by (cases "n < 24") auto
  done

lemma length_PutUint32: "length (PutUint32 v) = 4"
  by (simp add: PutUint32_def)

lemma uint_word_of_int_small:
  "0 \<le> k \<Longrightarrow> k < 2 ^ 32 \<Longrightarrow> uint (word_of_int k :: uint32) = k"
  by (simp add: uint_word_of_int_eq take_bit_int_eq_self)

lemma WriteMessage_healthy:
  assumes "length b \<le> 2 ^ 32 - 5" and "deadline_err w = None" and "wr_quota w = None"
  shows "WriteMessage (Some w) b =
           (Returns None,
            Some (w\<lparr>outgoing := outgoing w @ PutUint32 (word_of_int (int (length b) + 4)) @ b\<rparr>))"
  using assms by (simp add: WriteMessage_def MaxUint32_def binary_Write_def conn_Write_def)

lemma ReadMessage_frame:
  assumes "uint T = int (length b) + 4" and "deadline_err r = None"
    and "incoming r = PutUint32 T @ b @ rest"
  shows "ReadMessage (Some r) = (Returns (Inr b), Some (r\<lparr>incoming := rest\<rparr>))"
proof -
  have rd: "binary_Read r = (Inr T, r\<lparr>incoming := b @ rest\<rparr>)"
    using assms(3) by (simp add: binary_Read_def ReadFull_def length_PutUint32 Uint32_PutUint32)
  show ?thesis
    using assms(1,2) by (simp add: ReadMessage_def rd ReadFull_def)
qed

text \<open>
  C1 (framing round-trip). For every byte string \<open>b\<close> of at most \<open>2^32 - 5\<close> bytes,
  \<open>WriteMessage\<close> on a working connection writes the frame made of the big-endian
  32-bit total length \<open>|b| + 4\<close> followed by \<open>b\<close>, and \<open>ReadMessage\<close> at the other end
  of the pipe returns exactly \<open>b\<close>, with the prefix stripped and nothing left unread.
\<close>

theorem framing_round_trip:
  assumes "length b \<le> 2 ^ 32 - 5"
    and "deadline_err w = None" and "wr_quota w = None" and "outgoing w = []"
    and "deadline_err r = None" and "incoming r = []"
  shows "\<exists>w'. WriteMessage (Some w) b = (Returns None, Some w')
           \<and> outgoing w' = PutUint32 (word_of_int (int (length b) + 4)) @ b
           \<and> ReadMessage (Some (pipe w' r)) = (Returns (Inr b), Some r)"
proof -
  define T :: uint32 where "T = word_of_int (int (length b) + 4)"
  define w' where "w' = w\<lparr>outgoing := outgoing w @ PutUint32 T @ b\<rparr>"
  have wr: "WriteMessage (Some w) b = (Returns None, Some w')"
    unfolding w'_def T_def using assms(1-3) by (rule WriteMessage_healthy)
  have out: "outgoing w' = PutUint32 T @ b"
    using assms(4) by (simp add: w'_def)
  have sz: "uint T = int (length b) + 4"
    unfolding T_def using assms(1) by (subst uint_word_of_int_small) auto
  have "ReadMessage (Some (pipe w' r)) = (Returns (Inr b), Some ((pipe w' r)\<lparr>incoming := []\<rparr>))"
    using sz assms(5,6) out by (intro ReadMessage_frame) (simp_all add: pipe_def)
  moreover have "(pipe w' r)\<lparr>incoming := []\<rparr> = r"
    using assms(6) by (simp add: pipe_def)
  ultimately show ?thesis using wr out unfolding T_def by simp
qed

theorem framing_round_trip_witness:
  "\<exists>w'. WriteMessage (Some fresh_conn) [60, 97, 47, 62] = (Returns None, Some w')
       \<and> outgoing w' = [0, 0, 0, 8, 60, 97, 47, 62]
       \<and> ReadMessage (Some (pipe w' fresh_conn)) = (Returns (Inr [60, 97, 47, 62]), Some fresh_conn)"
  using framing_round_trip [of "[60, 97, 47, 62]" fresh_conn fresh_conn]
  by (simp add: fresh_conn_def PutUint32_def)

lemma ReadMessage_short_total:
  assumes "deadline_err c = None" and "incoming c = PutUint32 T @ rest" and "T < 4"
  shows "ReadMessage (Some c) = (Panics ''makeslice: len out of range'', Some (c\<lparr>incoming := rest\<rparr>))"
proof -
  have rd: "binary_Read c = (Inr T, c\<lparr>incoming := rest\<rparr>)"
    using assms(2) by (simp add: binary_Read_def ReadFull_def length_PutUint32 Uint32_PutUint32)
  have "uint T < 4" using assms(3) by (simp add: word_less_def)
  then show ?thesis using assms(1) by (simp add: ReadMessage_def rd)
qed

text \<open>
  C3 (errors of \<open>ReadMessage\<close>). On an absent connection \<open>ReadMessage\<close> returns
  \<open>connectionError\<close>. On a header announcing a total length below four it returns no
  error: the negative buffer length makes \<open>make\<close> panic. Here the header is
  \<open>00 00 00 03\<close>.
\<close>

theorem ReadMessage_total_below_header_panics:
  "ReadMessage None = (Returns (Inl connectionError), None)
   \<and> ReadMessage (Some (fresh_conn\<lparr>incoming := [0, 0, 0, 3]\<rparr>))
       = (Panics ''makeslice: len out of range'', Some fresh_conn)"
proof -
  have "PutUint32 3 = [0, 0, 0, 3]" by (simp add: PutUint32_def)
  then have "ReadMessage (Some (fresh_conn\<lparr>incoming := [0, 0, 0, 3]\<rparr>))
       = (Panics ''makeslice: len out of range'', Some (fresh_conn\<lparr>incoming := [0, 0, 0, 3]\<rparr>\<lparr>incoming := []\<rparr>))"
    by (intro ReadMessage_short_total [where T = 3]) (simp_all add: fresh_conn_def)
  moreover have "fresh_conn\<lparr>incoming := [0, 0, 0, 3]\<rparr>\<lparr>incoming := []\<rparr> = fresh_conn"
    by (simp add: fresh_conn_def)
  ultimately show ?thesis by (simp add: ReadMessage_def)
qed

section \<open>Properties of the router\<close>

lemma buildPath_loop_find:
  "buildPath_loop aliases pp cs =
     (case first_remaining cs of
        None \<Rightarrow> Returns pp
      | Some c \<Rightarrow>
          if session_command c then Returns (pp @ [Local (Name c)])
          else (case Children c of
                  [] \<Rightarrow> Panics ''index out of range [0] with length 0''
                | first # _ \<Rightarrow> Returns (pp @ [Local (Name c), object_alias aliases first])))"
  by (induction cs)
     (auto simp: first_remaining_def skipped_def session_command_def object_alias_def Let_def
           split: list.splits option.splits)

lemma buildPath_command:
  assumes "Name root = xml_Name nsEPP ''epp''" and "Children root = [el]"
    and "Local (Name el) = ''command''"
  shows "buildPath m root =
           (case buildPath_loop (namespaceAliases m) [''command''] (Children el) of
              Panics p \<Rightarrow> Panics p
            | Returns pathParts \<Rightarrow> Returns (Inr (Join pathParts ''/'')))"
  using assms by (simp add: buildPath_def)

text \<open>
  C4 (dispatch key). For a document whose \<open>epp\<close> root has the single child
  \<open>command\<close>, \<open>Handle\<close> skips \<open>extension\<close> and \<open>clTRID\<close> and looks at the first
  remaining child only: \<open>login\<close>, \<open>logout\<close> and \<open>poll\<close> give the key
  \<open>command/<name>\<close>; any other verb gives \<open>command/<verb>/<alias>\<close>, the alias being
  the registered alias of the namespace of the verb's first child, or that namespace. The
  handler registered under the key is called with the session and the raw payload, and
  its result is the result of \<open>Handle\<close>.
\<close>

theorem Handle_dispatch_key:
  assumes "Parse d = Inr root"
    and "Name root = xml_Name nsEPP ''epp''" and "Children root = [el]"
    and "Local (Name el) = ''command''"
    and "first_remaining (Children el) = Some c"
    and "session_command c \<and> key = ''command/'' @ Local (Name c)
         \<or> \<not> session_command c
           \<and> (\<exists>first others. Children c = first # others
                \<and> key = ''command/'' @ Local (Name c) @ ''/''
                          @ object_alias (namespaceAliases m) first)"
    and "handlers m key = Some h"
  shows "buildPath m root = Returns (Inr key)
         \<and> Handle Parse m s d = (Returns (fst (h s d)), snd (h s d))"
proof -
  have bp: "buildPath m root = Returns (Inr key)"
    using assms(5,6)
    by (auto simp: buildPath_command [OF assms(2-4)] buildPath_loop_find)
  show ?thesis
    using assms(1,7) by (simp add: bp Handle_def split: prod.splits)
qed

theorem Handle_dispatch_key_witness:
  "buildPath (AddHandler NewMux ''command/check/domain'' counting_handler) check_domain_doc
     = Returns (Inr ''command/check/domain'')
   \<and> Handle (\<lambda>_. Inr check_domain_doc)
        (AddHandler NewMux ''command/check/domain'' counting_handler) 0 [60, 47, 62]
     = (Returns (Inr [60, 47, 62]), 1)"
  using Handle_dispatch_key
    [where Parse = "\<lambda>_. Inr check_domain_doc" and d = "[60, 47, 62]"
       and root = check_domain_doc
       and el = "Element (xml_Name nsEPP ''command'') []
          [Element (xml_Name nsEPP ''check'') []
             [Element (xml_Name NameSpaceDomain ''check'') [] []],
           Element (xml_Name nsEPP ''clTRID'') [] []]"
       and c = "Element (xml_Name nsEPP ''check'') []
             [Element (xml_Name NameSpaceDomain ''check'') [] []]"
       and key = "''command/check/domain''"
       and m = "AddHandler NewMux ''command/check/domain'' counting_handler"
       and h = counting_handler and s = 0]
  by (simp add: check_domain_doc_def epp_doc_def first_remaining_def skipped_def
        session_command_def object_alias_def AddHandler_def NewMux_def NameSpaceDomain_def
        NameSpaceHost_def NameSpaceContact_def counting_handler_def)

text \<open>
  C5 (routing failures). \<open>Handle\<close> returns the error \<open>missing <epp> tag\<close> when the
  root is not \<open>epp\<close> in the EPP namespace, \<open><epp> should contain one element\<close> when
  the \<open>epp\<close> root has not exactly one child, and \<open>no handler for <path>\<close> when
  nothing is registered under the derived path. In each case the session comes back as
  it went in, whatever the registered handlers would do to it: none is called.
\<close>

theorem Handle_failures:
  assumes "Parse d = Inr root"
  shows "(Space (Name root) \<noteq> nsEPP \<or> Local (Name root) \<noteq> ''epp''
            \<longrightarrow> Handle Parse m s d = (Returns (Inl (ErrorString ''missing <epp> tag'')), s))
       \<and> (Space (Name root) = nsEPP \<and> Local (Name root) = ''epp'' \<and> length (Children root) \<noteq> 1
            \<longrightarrow> Handle Parse m s d
                = (Returns (Inl (ErrorString ''<epp> should contain one element'')), s))
       \<and> (\<forall>path. buildPath m root = Returns (Inr path) \<and> handlers m path = None
            \<longrightarrow> Handle Parse m s d
                = (Returns (Inl (ErrorString (''no handler for '' @ path))), s))"
  using assms by (auto simp: Handle_def buildPath_def)

theorem Handle_failures_witness:
  "Handle (\<lambda>_. Inr (Element (xml_Name [] ''epp'') [] [])) (NewMux :: nat Mux) 0 []
     = (Returns (Inl (ErrorString ''missing <epp> tag'')), 0)
   \<and> Handle (\<lambda>_. Inr (epp_doc [])) (NewMux :: nat Mux) 0 []
     = (Returns (Inl (ErrorString ''<epp> should contain one element'')), 0)
   \<and> Handle (\<lambda>_. Inr hello_doc) (NewMux :: nat Mux) 0 []
     = (Returns (Inl (ErrorString ''no handler for hello'')), 0)"
  using Handle_failures [where Parse = "\<lambda>_. Inr (Element (xml_Name [] ''epp'') [] [])"
      and d = "[]" and root = "Element (xml_Name [] ''epp'') [] []"
      and m = "NewMux :: nat Mux" and s = 0]
    Handle_failures [where Parse = "\<lambda>_. Inr (epp_doc [])" and d = "[]"
      and root = "epp_doc []" and m = "NewMux :: nat Mux" and s = 0]
    Handle_failures [where Parse = "\<lambda>_. Inr hello_doc" and d = "[]"
      and root = hello_doc and m = "NewMux :: nat Mux" and s = 0]
  by (simp add: epp_doc_def hello_doc_def nsEPP_def buildPath_def NewMux_def)

text \<open>
  C10 (empty verb element). For a document whose \<open>epp\<close> root has the single child
  \<open>command\<close>, \<open>buildPath\<close> panics exactly when the first child that is not skipped
  is none of \<open>login\<close>, \<open>logout\<close>, \<open>poll\<close> and has no child element: the index
  \<open>child.Children[0]\<close> is out of range. \<open>Handle\<close> then returns neither a response nor
  an error.
\<close>

theorem buildPath_empty_verb_panics:
  assumes "Name root = xml_Name nsEPP ''epp''" and "Children root = [el]"
    and "Local (Name el) = ''command''"
  shows "((\<exists>p. buildPath m root = Panics p)
            \<longleftrightarrow> (\<exists>c. first_remaining (Children el) = Some c \<and> \<not> session_command c
                       \<and> Children c = []))
       \<and> ((\<exists>c. first_remaining (Children el) = Some c \<and> \<not> session_command c \<and> Children c = [])
            \<and> Parse d = Inr root
            \<longrightarrow> Handle Parse m s d = (Panics ''index out of range [0] with length 0'', s))"
  by (auto simp: buildPath_command [OF assms] buildPath_loop_find Handle_def
           split: option.splits list.splits)


theorem buildPath_empty_verb_panics_witness:
  "(\<exists>p. buildPath (NewMux :: nat Mux) empty_check_doc = Panics p)
   \<and> Handle (\<lambda>_. Inr empty_check_doc) (NewMux :: nat Mux) 0 []
     = (Panics ''index out of range [0] with length 0'', 0)"
  using buildPath_empty_verb_panics
    [where root = empty_check_doc
       and el = "Element (xml_Name nsEPP ''command'') []
          [Element (xml_Name nsEPP ''clTRID'') [] [],
           Element (xml_Name nsEPP ''check'') [] []]"
       and Parse = "\<lambda>_. Inr empty_check_doc" and d = "[]" and m = "NewMux :: nat Mux"
       and s = 0]
  by (simp add: empty_check_doc_def epp_doc_def first_remaining_def skipped_def
        session_command_def)

section \<open>Properties of the envelope encoder\<close>

lemmas ns_defs = NameSpaceDomain_def NameSpaceHost_def NameSpaceContact_def
  NameSpaceDNSSEC10_def NameSpaceDNSSEC11_def NameSpaceIIS12_def NameSpaceEPP10_def

lemma encoder_namespaceAliases_empty: "encoder_namespaceAliases [] = None"
  by (simp add: encoder_namespaceAliases_def NameSpaceDomain_def NameSpaceHost_def
        NameSpaceContact_def NameSpaceDNSSEC10_def NameSpaceDNSSEC11_def NameSpaceIIS12_def)

lemma all_known_list_iff: "all_known_list cs \<longleftrightarrow> (\<forall>c \<in> set cs. all_known c)"
  by (induction cs) auto

lemma addNameSpaceAlias_children_known:
  assumes "\<And>c b. c \<in> set cs \<Longrightarrow> \<exists>c'. addNameSpaceAlias c b = Returns (Some c')"
  shows "\<exists>cs'. addNameSpaceAlias_children cs b = Returns cs'"
  using assms
proof (induction cs)
  case Nil
  show ?case by simp
next
  case (Cons c cs)
  from Cons.prems obtain c' where c: "addNameSpaceAlias c b = Returns (Some c')"
    by (meson list.set_intros(1))
  from Cons obtain cs' where cs: "addNameSpaceAlias_children cs b = Returns cs'"
    by (meson list.set_intros(2))
  show ?case by (simp add: c cs)
qed

lemma addNameSpaceAlias_known:
  "all_known e \<Longrightarrow> \<exists>e'. addNameSpaceAlias e b = Returns (Some e')"
proof (induction e arbitrary: b)
  case (Element name attr children)
  have ch: "\<exists>cs'. addNameSpaceAlias_children children b' = Returns cs'" for b'
    using Element by (intro addNameSpaceAlias_children_known) (auto simp: all_known_list_iff)
  from Element.prems have k: "Space name = [] \<or> encoder_namespaceAliases (Space name) \<noteq> None"
    by simp
  show ?case
  proof (cases "Space name = []")
    case True
    from ch [of b] True show ?thesis by auto
  next
    case False
    with k obtain al where "encoder_namespaceAliases (Space name) = Some al" by auto
    with ch [of True] False show ?thesis by auto
  qed
qed

lemma addNameSpaceAlias_children_nth:
  "addNameSpaceAlias_children cs b = Returns cs' \<Longrightarrow>
     length cs' = length cs
     \<and> (\<forall>i < length cs. addNameSpaceAlias (cs ! i) b = Returns (Some (cs' ! i)))"
proof (induction cs arbitrary: cs')
  case Nil
  then show ?case by simp
next
  case (Cons c cs)
  from Cons.prems obtain c' rest' where
    c: "addNameSpaceAlias c b = Returns (Some c')"
    and r: "addNameSpaceAlias_children cs b = Returns rest'" and cs': "cs' = c' # rest'"
    by (auto split: option.splits outcome.splits)
  from Cons.IH [OF r] c cs' show ?case
    by (auto simp: nth_Cons split: nat.splits)
qed

lemma addNameSpaceAlias_node:
  assumes "addNameSpaceAlias e b = Returns (Some e')"
  shows "rewritten b e e'
         \<and> addNameSpaceAlias_children (Children e) (b \<or> aliased e) = Returns (Children e')"
  using assms
  by (cases e)
     (auto simp: rewritten_def aliased_def encoder_namespaceAliases_empty
           split: option.splits outcome.splits if_splits)

lemma addNameSpaceAlias_subtree:
  "addNameSpaceAlias e b = Returns (Some e') \<Longrightarrow>
     (case subtree e p of
        None \<Rightarrow> subtree e' p = None
      | Some x \<Rightarrow> \<exists>x'. subtree e' p = Some x' \<and> rewritten (b \<or> aliased_above e p) x x')"
proof (induction p arbitrary: e e' b)
  case Nil
  then show ?case using addNameSpaceAlias_node by simp
next
  case (Cons i q)
  from addNameSpaceAlias_node [OF Cons.prems]
  have ch: "addNameSpaceAlias_children (Children e) (b \<or> aliased e) = Returns (Children e')"
    by simp
  from addNameSpaceAlias_children_nth [OF ch]
  have len: "length (Children e') = length (Children e)"
    and nth: "\<And>j. j < length (Children e) \<Longrightarrow>
                addNameSpaceAlias (Children e ! j) (b \<or> aliased e) = Returns (Some (Children e' ! j))"
    by auto
  show ?case
  proof (cases "i < length (Children e)")
    case True
    from Cons.IH [OF nth [OF True]] True len show ?thesis
      by (auto simp: disj_assoc split: option.splits)
  next
    case False
    with len show ?thesis by simp
  qed
qed


text \<open>
  C7 (namespace without alias). An element below the root whose namespace has no alias
  does not keep its name with \<open>Encode\<close> returning the document: for such an element
  \<open>addNameSpaceAlias\<close> returns nil, the loop over the children of its parent
  dereferences the result, and \<open>Encode\<close> panics. Here the payload has a child in the
  EPP namespace.
\<close>

theorem Encode_unknown_namespace_panics:
  "addNameSpaceAlias (Element (xml_Name NameSpaceEPP10 ''response'') [] []) False = Returns None
   \<and> Encode_document unknown_child_doc ServerXMLAttributes
       = Panics ''invalid memory address or nil pointer dereference''
   \<and> Encode (\<lambda>_. Inr []) (\<lambda>_. Inr unknown_child_doc) (\<lambda>_ _ _. []) () ServerXMLAttributes
       = Panics ''invalid memory address or nil pointer dereference''"
  by (simp add: Encode_def Encode_document_def unknown_child_doc_def
        encoder_namespaceAliases_def ns_defs)

text \<open>
  C8 (alias rewrite), as amended. For a document in which every element's namespace is
  empty or has an alias, \<open>Encode\<close> marshals a tree whose root is \<open>epp\<close> with the given
  attributes and in which every element below the root is the element of the parsed
  document at the same position, rewritten: an aliased element is named
  \<open>alias:local\<close>; it gets the attribute \<open>xmlns:alias\<close> exactly when no element above
  it, the root of the parsed document included, is aliased; every other element keeps
  its name and attributes.
\<close>

theorem Encode_alias_rewrite:
  assumes "all_known document"
  shows "\<exists>out. Encode_document document xmlAttributes = Returns out
           \<and> Name out = xml_Name [] ''epp'' \<and> Attr out = xmlAttributes
           \<and> (\<forall>p. p \<noteq> [] \<longrightarrow>
                 (case subtree document p of
                    None \<Rightarrow> subtree out p = None
                  | Some e \<Rightarrow>
                      \<exists>e'. subtree out p = Some e'
                          \<and> rewritten (aliased_above document p) e e'))"
proof -
  from addNameSpaceAlias_known [OF assms]
  obtain d where d: "addNameSpaceAlias document False = Returns (Some d)" by blast
  define out where "out = Element (xml_Name [] rootLocalName) xmlAttributes (Children d)"
  have enc: "Encode_document document xmlAttributes = Returns out"
    by (simp add: Encode_document_def d out_def)
  have below: "subtree out p = subtree d p" if "p \<noteq> []" for p
    using that by (cases p) (simp_all add: out_def)
  have nm: "Name out = xml_Name [] ''epp''" and at: "Attr out = xmlAttributes"
    by (simp_all add: out_def rootLocalName_def)
  have "case subtree document p of
          None \<Rightarrow> subtree out p = None
        | Some e \<Rightarrow> \<exists>e'. subtree out p = Some e' \<and> rewritten (aliased_above document p) e e'"
    if "p \<noteq> []" for p
    using addNameSpaceAlias_subtree [OF d, of p] below [OF that]
    by (auto split: option.splits)
  with enc nm at show ?thesis by blast
qed

theorem Encode_alias_rewrite_witness:
  "(\<exists>out. Encode_document info_response_doc ServerXMLAttributes = Returns out
           \<and> Name out = xml_Name [] ''epp'' \<and> Attr out = ServerXMLAttributes
           \<and> (\<forall>p. p \<noteq> [] \<longrightarrow>
                 (case subtree info_response_doc p of
                    None \<Rightarrow> subtree out p = None
                  | Some e \<Rightarrow>
                      \<exists>e'. subtree out p = Some e'
                          \<and> rewritten (aliased_above info_response_doc p) e e')))
   \<and> Encode_document info_response_doc ServerXMLAttributes
       = Returns (Element (xml_Name [] ''epp'') ServerXMLAttributes
           [Element (xml_Name [] ''resData'') []
              [Element (xml_Name NameSpaceDomain ''domain:infData'')
                 [xml_Attr (xml_Name [] ''xmlns:domain'') NameSpaceDomain]
                 [Element (xml_Name NameSpaceDomain ''domain:name'') [] []]]])"
proof -
  have k: "all_known info_response_doc"
    by (simp add: info_response_doc_def encoder_namespaceAliases_def)
  have "Encode_document info_response_doc ServerXMLAttributes
       = Returns (Element (xml_Name [] ''epp'') ServerXMLAttributes
           [Element (xml_Name [] ''resData'') []
              [Element (xml_Name NameSpaceDomain ''domain:infData'')
                 [xml_Attr (xml_Name [] ''xmlns:domain'') NameSpaceDomain]
                 [Element (xml_Name NameSpaceDomain ''domain:name'') [] []]]])"
    by (simp add: Encode_document_def info_response_doc_def encoder_namespaceAliases_def
          rootLocalName_def ns_defs)
  with Encode_alias_rewrite [OF k, of ServerXMLAttributes] show ?thesis by blast
qed

text \<open>
  The claim as stated fails when the root of the parsed document is itself aliased: the
  declaration is made on the root, whose start element \<open>Encode\<close> then replaces, and no
  element of the output carries it.
\<close>

theorem Encode_aliased_root_counterexample:
  "addNameSpaceAlias aliased_root_doc False
     = Returns (Some (Element (xml_Name NameSpaceDomain ''domain:infData'')
                        [xml_Attr (xml_Name [] ''xmlns:domain'') NameSpaceDomain]
                        [Element (xml_Name NameSpaceDomain ''domain:name'') [] []]))
   \<and> Encode_document aliased_root_doc ServerXMLAttributes
     = Returns (Element (xml_Name [] ''epp'') ServerXMLAttributes
                 [Element (xml_Name NameSpaceDomain ''domain:name'') [] []])"
  by (simp add: Encode_document_def aliased_root_doc_def encoder_namespaceAliases_def
        rootLocalName_def ns_defs)

section \<open>The two alias maps\<close>

lemma buildPath_verb_doc:
  assumes "verb \<noteq> ''extension''" and "verb \<noteq> ''clTRID''" and "verb \<noteq> ''login''"
    and "verb \<noteq> ''logout''" and "verb \<noteq> ''poll''"
  shows "buildPath m (verb_doc verb first) =
           Returns (Inr (''command/'' @ verb @ ''/'' @ object_alias (namespaceAliases m) first))"
  using assms
  by (simp add: verb_doc_def epp_doc_def buildPath_def object_alias_def split: option.splits)

text \<open>
  C9 (seed aliases), as amended. The router and the encoder hold separate maps. For
  \<open>domain\<close>, \<open>host\<close> and \<open>contact\<close> both translate the namespace to the alias. For
  \<open>secDNS-1.0\<close>, \<open>secDNS-1.1\<close> and \<open>iis-1.2\<close> only the encoder does: the router of
  \<open>NewMux\<close> puts the namespace itself into the path, and uses the alias once it has
  been registered with \<open>AddNamespaceAlias\<close>.
\<close>

theorem seed_aliases:
  assumes "verb \<notin> {''extension'', ''clTRID'', ''login'', ''logout'', ''poll''}"
  shows "(\<forall>(uri, alias) \<in> set [(NameSpaceDomain, ''domain''), (NameSpaceHost, ''host''),
                                 (NameSpaceContact, ''contact'')].
            buildPath (NewMux :: 's Mux) (verb_doc verb (Element (xml_Name uri l) as cs))
              = Returns (Inr (''command/'' @ verb @ ''/'' @ alias)))
       \<and> (\<forall>(uri, alias) \<in> set [(NameSpaceDNSSEC10, ''sed''), (NameSpaceDNSSEC11, ''sec''),
                                 (NameSpaceIIS12, ''iis'')].
            buildPath (NewMux :: 's Mux) (verb_doc verb (Element (xml_Name uri l) as cs))
              = Returns (Inr (''command/'' @ verb @ ''/'' @ uri))
            \<and> buildPath (AddNamespaceAlias (NewMux :: 's Mux) uri alias)
                 (verb_doc verb (Element (xml_Name uri l) as cs))
              = Returns (Inr (''command/'' @ verb @ ''/'' @ alias)))
       \<and> (\<forall>(uri, alias) \<in> set [(NameSpaceDomain, ''domain''), (NameSpaceHost, ''host''),
                                 (NameSpaceContact, ''contact''), (NameSpaceDNSSEC10, ''sed''),
                                 (NameSpaceDNSSEC11, ''sec''), (NameSpaceIIS12, ''iis'')].
            addNameSpaceAlias (Element (xml_Name uri l) as []) False
              = Returns (Some (Element (xml_Name uri (alias @ '':'' @ l))
                                 (SetAttr as [] (''xmlns:'' @ alias) uri) [])))"
proof -
  from assms have v: "verb \<noteq> ''extension''" "verb \<noteq> ''clTRID''" "verb \<noteq> ''login''"
    "verb \<noteq> ''logout''" "verb \<noteq> ''poll''"
    by auto
  have router: "(\<forall>(uri, alias) \<in> set [(NameSpaceDomain, ''domain''), (NameSpaceHost, ''host''),
                                 (NameSpaceContact, ''contact'')].
            buildPath (NewMux :: 's Mux) (verb_doc verb (Element (xml_Name uri l) as cs))
              = Returns (Inr (''command/'' @ verb @ ''/'' @ alias)))"
    by (simp add: buildPath_verb_doc [OF v] object_alias_def NewMux_def ns_defs)
  have router_rest: "(\<forall>(uri, alias) \<in> set [(NameSpaceDNSSEC10, ''sed''), (NameSpaceDNSSEC11, ''sec''),
                                 (NameSpaceIIS12, ''iis'')].
            buildPath (NewMux :: 's Mux) (verb_doc verb (Element (xml_Name uri l) as cs))
              = Returns (Inr (''command/'' @ verb @ ''/'' @ uri))
            \<and> buildPath (AddNamespaceAlias (NewMux :: 's Mux) uri alias)
                 (verb_doc verb (Element (xml_Name uri l) as cs))
              = Returns (Inr (''command/'' @ verb @ ''/'' @ alias)))"
    by (simp add: buildPath_verb_doc [OF v] object_alias_def NewMux_def AddNamespaceAlias_def
          ns_defs)
  have encoder: "(\<forall>(uri, alias) \<in> set [(NameSpaceDomain, ''domain''), (NameSpaceHost, ''host''),
                                 (NameSpaceContact, ''contact''), (NameSpaceDNSSEC10, ''sed''),
                                 (NameSpaceDNSSEC11, ''sec''), (NameSpaceIIS12, ''iis'')].
            addNameSpaceAlias (Element (xml_Name uri l) as []) False
              = Returns (Some (Element (xml_Name uri (alias @ '':'' @ l))
                                 (SetAttr as [] (''xmlns:'' @ alias) uri) [])))"
    by (simp add: encoder_namespaceAliases_def ns_defs)
  from router router_rest encoder show ?thesis by blast
qed

theorem seed_aliases_witness:
  "buildPath (NewMux :: nat Mux) (verb_doc ''check'' (Element (xml_Name NameSpaceHost ''check'') [] []))
     = Returns (Inr ''command/check/host'')
   \<and> buildPath (NewMux :: nat Mux)
       (verb_doc ''check'' (Element (xml_Name NameSpaceIIS12 ''check'') [] []))
     = Returns (Inr ''command/check/urn:se:iis:xml:epp:iis-1.2'')
   \<and> buildPath (AddNamespaceAlias (NewMux :: nat Mux) NameSpaceIIS12 ''iis'')
       (verb_doc ''check'' (Element (xml_Name NameSpaceIIS12 ''check'') [] []))
     = Returns (Inr ''command/check/iis'')
   \<and> addNameSpaceAlias (Element (xml_Name NameSpaceIIS12 ''check'') [] []) False
     = Returns (Some (Element (xml_Name NameSpaceIIS12 ''iis:check'')
                        [xml_Attr (xml_Name [] ''xmlns:iis'') NameSpaceIIS12] []))"
  using seed_aliases [where verb = "''check''" and l = "''check''" and as = "[]" and cs = "[]"
      and ?'s = nat]
  by (simp add: ns_defs)

text \<open>
  The claim as stated fails for \<open>secDNS-1.1\<close>: the router of \<open>NewMux\<close> has no alias
  for it.
\<close>

theorem router_seed_aliases_counterexample:
  "namespaceAliases (NewMux :: nat Mux) NameSpaceDNSSEC11 = None
   \<and> encoder_namespaceAliases NameSpaceDNSSEC11 = Some ''sec''
   \<and> buildPath (NewMux :: nat Mux)
       (verb_doc ''update'' (Element (xml_Name NameSpaceDNSSEC11 ''update'') [] []))
     = Returns (Inr ''command/update/urn:ietf:params:xml:ns:secDNS-1.1'')"
  by (simp add: NewMux_def encoder_namespaceAliases_def verb_doc_def epp_doc_def buildPath_def
        ns_defs)

section \<open>Properties of the session engine\<close>

lemma fresh_conn_simps:
  "incoming fresh_conn = []" "outgoing fresh_conn = []" "deadline_err fresh_conn = None"
  "wr_quota fresh_conn = None"
  by (simp_all add: fresh_conn_def)

lemma length_bytes_of: "length (bytes_of s) = length s"
  by (simp add: bytes_of_def)

lemma WriteMessage_frame:
  assumes "length b \<le> 2 ^ 32 - 5" and "deadline_err w = None" and "wr_quota w = None"
  shows "WriteMessage (Some w) b = (Returns None, Some (w\<lparr>outgoing := outgoing w @ frame b\<rparr>))"
  using WriteMessage_healthy [OF assms] by (simp add: frame_def)

lemma ReadMessage_framed:
  assumes "length b \<le> 2 ^ 32 - 5" and "deadline_err r = None"
    and "incoming r = frame b @ rest"
  shows "ReadMessage (Some r) = (Returns (Inr b), Some (r\<lparr>incoming := rest\<rparr>))"
proof -
  have "uint (word_of_nat (length b + 4) :: uint32) = int (length b) + 4"
    using assms(1) uint_word_of_int_small [of "int (length b) + 4"] by simp
  then show ?thesis
    using assms(2,3) by (intro ReadMessage_frame) (simp_all add: frame_def)
qed

lemma loop_body_validation_fails:
  assumes "selected t = default_case"
    and "deadline_err (conn s) = None"
    and "ReadMessage (Some ((conn s)\<lparr>incoming := incoming (conn s) @ arrives t\<rparr>))
           = (Returns (Inr message), Some cr)"
    and "validator s = Some v" and "v message = Some err"
  shows "loop_body s t
           = (Returned (Some err),
              s\<lparr>conn := cr, user := fold (\<lambda>f u. f u) (onCommands s) (user s)\<rparr>)"
  using assms by (simp add: loop_body_def validate_def conn_after_def)

lemma loop_body_response_written:
  assumes "selected t = default_case"
    and "deadline_err (conn s) = None"
    and "ReadMessage (Some ((conn s)\<lparr>incoming := incoming (conn s) @ arrives t\<rparr>))
           = (Returns (Inr message), Some cr)"
    and "validate s message = None"
    and "handler s (fold (\<lambda>f u. f u) (onCommands s) (user s)) message = (Inr response, ua)"
    and "validate s response = None"
    and "WriteMessage (Some cr) response = (Returns None, Some cw)"
  shows "loop_body s t = (Looping, s\<lparr>conn := cw, user := ua\<rparr>)"
  using assms by (simp add: loop_body_def conn_after_def)

lemma run_greeting_logging:
  assumes "v = None \<or> v = Some rejecting_validator"
  shows "run_greeting (logging_session v) =
     (Looping, (logging_session v)
        \<lparr>conn := fresh_conn\<lparr>read_end := NetError True ''i/o timeout'',
                              outgoing := frame (bytes_of ''<greeting/>'')\<rparr>\<rparr>)"
proof -
  have w: "WriteMessage (Some (fresh_conn\<lparr>read_end := NetError True ''i/o timeout''\<rparr>))
             (bytes_of ''<greeting/>'')
           = (Returns None,
              Some (fresh_conn\<lparr>read_end := NetError True ''i/o timeout'',
                                 outgoing := frame (bytes_of ''<greeting/>'')\<rparr>))"
    by (subst WriteMessage_frame) (simp_all add: length_bytes_of fresh_conn_simps)
  show ?thesis
    using assms
    by (auto simp: run_greeting_def logging_session_def validate_def w conn_after_def
        rejecting_validator_def)
qed

lemma ReadMessage_outgoing:
  "ReadMessage (Some c) = (r, Some c') \<Longrightarrow> outgoing c' = outgoing c"
  by (auto simp: ReadMessage_def binary_Read_def ReadFull_def Let_def
        split: prod.splits sum.splits option.splits if_splits)

lemma greeted_conn_simps:
  "incoming greeted_conn = []" "deadline_err greeted_conn = None"
  "wr_quota greeted_conn = None"
  by (simp_all add: greeted_conn_def fresh_conn_def)

lemma ReadMessage_greeted:
  assumes "length m \<le> 2 ^ 32 - 5" and "incoming c = []" and "deadline_err c = None"
  shows "ReadMessage (Some (c\<lparr>incoming := incoming c @ frame m\<rparr>)) = (Returns (Inr m), Some c)"
proof -
  have "ReadMessage (Some (c\<lparr>incoming := incoming c @ frame m\<rparr>))
          = (Returns (Inr m), Some (c\<lparr>incoming := incoming c @ frame m\<rparr>\<lparr>incoming := []\<rparr>))"
    using assms by (intro ReadMessage_framed) simp_all
  moreover have "c\<lparr>incoming := incoming c @ frame m\<rparr>\<lparr>incoming := []\<rparr> = c"
    using assms(2) by simp
  ultimately show ?thesis by simp
qed

lemma loop_body_logging_rejected:
  "loop_body ((logging_session (Some rejecting_validator))
        \<lparr>conn := fresh_conn\<lparr>read_end := NetError True ''i/o timeout'',
                              outgoing := frame (bytes_of ''<greeting/>'')\<rparr>\<rparr>)
      \<lparr>selected = default_case, arrives = frame (bytes_of ''<epp/>'')\<rparr>
   = (Returned (Some (ErrorString ''schema violation'')),
      (logging_session (Some rejecting_validator))
        \<lparr>conn := fresh_conn\<lparr>read_end := NetError True ''i/o timeout'',
                              outgoing := frame (bytes_of ''<greeting/>'')\<rparr>,
          user := [''observer 1'', ''observer 2'']\<rparr>)"
proof -
  let ?c = "fresh_conn\<lparr>read_end := NetError True ''i/o timeout'',
                         outgoing := frame (bytes_of ''<greeting/>'')\<rparr>"
  have r: "ReadMessage (Some (?c\<lparr>incoming := incoming ?c @ frame (bytes_of ''<epp/>'')\<rparr>))
           = (Returns (Inr (bytes_of ''<epp/>'')), Some ?c)"
    by (subst ReadMessage_framed [where b = "bytes_of ''<epp/>''" and rest = "[]"])
       (simp_all add: length_bytes_of fresh_conn_simps)
  have v: "rejecting_validator (bytes_of ''<epp/>'') = Some (ErrorString ''schema violation'')"
    by (simp add: rejecting_validator_def bytes_of_def)
  show ?thesis
    using r v
    by (subst loop_body_validation_fails [where message = "bytes_of ''<epp/>''" and cr = ?c
          and v = rejecting_validator and err = "ErrorString ''schema violation''"])
       (simp_all add: logging_session_def fresh_conn_simps)
qed

lemma loop_body_bye_response:
  assumes "length m \<le> 2 ^ 32 - 5"
    and "incoming (conn s) = []" and "deadline_err (conn s) = None"
    and "wr_quota (conn s) = None" and "validator s = None"
    and "handler s = (\<lambda>u d. (Inr bye_response, u @ [''handler'']))"
    and "onCommands s = [\<lambda>u. u @ [''observer 1''], \<lambda>u. u @ [''observer 2'']]"
  shows "loop_body s \<lparr>selected = default_case, arrives = frame m\<rparr>
           = (Looping,
              s\<lparr>conn := (conn s)\<lparr>outgoing := outgoing (conn s) @ frame bye_response\<rparr>,
                user := user s @ [''observer 1'', ''observer 2'', ''handler'']\<rparr>)"
proof -
  let ?t = "\<lparr>selected = default_case, arrives = frame m\<rparr>"
  have r: "ReadMessage (Some ((conn s)\<lparr>incoming := incoming (conn s) @ arrives ?t\<rparr>))
             = (Returns (Inr m), Some (conn s))"
    using ReadMessage_greeted [OF assms(1-3)] by simp
  have w: "WriteMessage (Some (conn s)) bye_response
             = (Returns None, Some ((conn s)\<lparr>outgoing := outgoing (conn s) @ frame bye_response\<rparr>))"
    using assms(3,4) by (intro WriteMessage_frame) (simp_all add: bye_response_def length_bytes_of)
  show ?thesis
    by (rule loop_body_response_written [OF _ assms(3) r _ _ _ w])
       (simp_all add: assms validate_def)
qed

lemma IsBye_iff: "IsBye rs \<longleftrightarrow> rs \<in> {1500, 2500, 2501, 2502}"
  by (simp add: IsBye_def EppOkBye_def EppCommandFailedBye_def EppAuthFailedBye_def
        EppSessionLimitExceededBye_def)

text \<open>
  C2 (validation and dispatch), as amended. When a validator is installed and rejects
  the bytes just received, the session returns the validator's error and its connection
  is closed; the handler is not invoked for that message and nothing is written. The
  observers of \<open>onCommands\<close> have been invoked, in their order, before the validation.
\<close>

theorem observers_then_validation:
  assumes "selected t = default_case"
    and "deadline_err (conn s) = None"
    and "ReadMessage (Some ((conn s)\<lparr>incoming := incoming (conn s) @ arrives t\<rparr>))
           = (Returns (Inr message), Some cr)"
    and "validator s = Some v" and "v message = Some err"
  shows "run_loop s (t # ts)
           = (Returned (Some err),
              s\<lparr>conn := cr, user := fold (\<lambda>f u. f u) (onCommands s) (user s)\<rparr>)
         \<and> deferred_Close (run_loop s (t # ts))
           = (Returned (Some err),
              s\<lparr>conn := cr, user := fold (\<lambda>f u. f u) (onCommands s) (user s),
                closed := True\<rparr>)
         \<and> outgoing cr = outgoing (conn s)"
  using loop_body_validation_fails [OF assms] ReadMessage_outgoing [OF assms(3)]
  by (simp add: deferred_Close_def)

theorem observers_then_validation_witness:
  "run_loop ((logging_session (Some rejecting_validator))\<lparr>conn := greeted_conn\<rparr>)
       [\<lparr>selected = default_case, arrives = frame (bytes_of ''<epp/>'')\<rparr>]
     = (Returned (Some (ErrorString ''schema violation'')),
        (logging_session (Some rejecting_validator))
          \<lparr>conn := greeted_conn, user := [''observer 1'', ''observer 2'']\<rparr>)
   \<and> deferred_Close
       (run_loop ((logging_session (Some rejecting_validator))\<lparr>conn := greeted_conn\<rparr>)
          [\<lparr>selected = default_case, arrives = frame (bytes_of ''<epp/>'')\<rparr>])
     = (Returned (Some (ErrorString ''schema violation'')),
        (logging_session (Some rejecting_validator))
          \<lparr>conn := greeted_conn, user := [''observer 1'', ''observer 2''],
            closed := True\<rparr>)
   \<and> outgoing greeted_conn = frame (bytes_of ''<greeting/>'')"
proof -
  let ?s = "(logging_session (Some rejecting_validator))\<lparr>conn := greeted_conn\<rparr>"
  let ?t = "\<lparr>selected = default_case, arrives = frame (bytes_of ''<epp/>'')\<rparr>"
  have a: "selected ?t = default_case" by simp
  have b: "deadline_err (conn ?s) = None" by (simp add: greeted_conn_simps)
  have c: "ReadMessage (Some ((conn ?s)\<lparr>incoming := incoming (conn ?s) @ arrives ?t\<rparr>))
             = (Returns (Inr (bytes_of ''<epp/>'')), Some greeted_conn)"
    using ReadMessage_greeted [of "bytes_of ''<epp/>''" greeted_conn]
    by (simp add: length_bytes_of greeted_conn_simps)
  have d: "validator ?s = Some rejecting_validator" by (simp add: logging_session_def)
  have e: "rejecting_validator (bytes_of ''<epp/>'') = Some (ErrorString ''schema violation'')"
    by (simp add: rejecting_validator_def bytes_of_def)
  have u: "fold (\<lambda>f u. f u) (onCommands ?s) (user ?s) = [''observer 1'', ''observer 2'']"
    by (simp add: logging_session_def)
  have o: "outgoing greeted_conn = frame (bytes_of ''<greeting/>'')"
    by (simp add: greeted_conn_def)
  from observers_then_validation [OF a b c d e, of "[]"] show ?thesis
    unfolding u by (simp add: o deferred_Close_def)
qed

text \<open>
  The claim as stated fails: both observers have run for a message that the validator
  then rejects.
\<close>

theorem observers_run_before_validation_counterexample:
  "run (logging_session (Some rejecting_validator))
       [\<lparr>selected = default_case, arrives = frame (bytes_of ''<epp/>'')\<rparr>]
     = (Returned (Some (ErrorString ''schema violation'')),
        (logging_session (Some rejecting_validator))
          \<lparr>conn := fresh_conn\<lparr>read_end := NetError True ''i/o timeout'',
                                outgoing := frame (bytes_of ''<greeting/>'')\<rparr>,
            user := [''observer 1'', ''observer 2''],
            closed := True\<rparr>)"
  by (simp add: run_def deferred_Close_def run_greeting_logging loop_body_logging_rejected)


text \<open>
  C6 (Bye codes), as amended. \<open>IsBye\<close> is true exactly for the codes 1500, 2500, 2501
  and 2502. The session does not look into the response: once a response is fully
  written, whatever result code it carries, \<open>run\<close> stays in its loop and goes on with
  the next pass; the connection is not closed.
\<close>

theorem written_response_keeps_session:
  assumes "selected t = default_case"
    and "deadline_err (conn s) = None"
    and "ReadMessage (Some ((conn s)\<lparr>incoming := incoming (conn s) @ arrives t\<rparr>))
           = (Returns (Inr message), Some cr)"
    and "validate s message = None"
    and "handler s (fold (\<lambda>f u. f u) (onCommands s) (user s)) message = (Inr response, ua)"
    and "validate s response = None"
    and "WriteMessage (Some cr) response = (Returns None, Some cw)"
  shows "(IsBye rs \<longleftrightarrow> rs \<in> {1500, 2500, 2501, 2502})
         \<and> loop_body s t = (Looping, s\<lparr>conn := cw, user := ua\<rparr>)
         \<and> run_loop s (t # ts) = run_loop (s\<lparr>conn := cw, user := ua\<rparr>) ts
         \<and> closed (s\<lparr>conn := cw, user := ua\<rparr>) = closed s"
  using loop_body_response_written [OF assms] by (simp add: IsBye_iff)

theorem written_response_keeps_session_witness:
  "IsBye EppOkBye
   \<and> run_loop ((logging_session None)\<lparr>conn := greeted_conn\<rparr>)
       [\<lparr>selected = default_case, arrives = frame (bytes_of ''<epp/>'')\<rparr>]
     = (Looping,
        (logging_session None)
          \<lparr>conn := greeted_conn\<lparr>outgoing := outgoing greeted_conn @ frame bye_response\<rparr>,
            user := [''observer 1'', ''observer 2'', ''handler'']\<rparr>)"
proof -
  let ?s = "(logging_session None)\<lparr>conn := greeted_conn\<rparr>"
  let ?t = "\<lparr>selected = default_case, arrives = frame (bytes_of ''<epp/>'')\<rparr>"
  let ?cw = "greeted_conn\<lparr>outgoing := outgoing greeted_conn @ frame bye_response\<rparr>"
  have a: "selected ?t = default_case" by simp
  have b: "deadline_err (conn ?s) = None" by (simp add: greeted_conn_simps)
  have c: "ReadMessage (Some ((conn ?s)\<lparr>incoming := incoming (conn ?s) @ arrives ?t\<rparr>))
             = (Returns (Inr (bytes_of ''<epp/>'')), Some greeted_conn)"
    using ReadMessage_greeted [of "bytes_of ''<epp/>''" greeted_conn]
    by (simp add: length_bytes_of greeted_conn_simps)
  have d: "validate ?s m = None" for m by (simp add: validate_def logging_session_def)
  have e: "handler ?s (fold (\<lambda>f u. f u) (onCommands ?s) (user ?s)) (bytes_of ''<epp/>'')
             = (Inr bye_response, [''observer 1'', ''observer 2'', ''handler''])"
    by (simp add: logging_session_def)
  have f: "WriteMessage (Some greeted_conn) bye_response = (Returns None, Some ?cw)"
    by (intro WriteMessage_frame)
       (simp_all add: bye_response_def length_bytes_of greeted_conn_simps)
  from written_response_keeps_session [OF a b c d e d f, of EppOkBye "[]"] show ?thesis
    by (simp add: logging_session_def EppOkBye_def)
qed

text \<open>
  The claim as stated fails: after a response with the code 1500 is written the session
  reads and answers a second message, and \<open>run\<close> is still in its loop with the
  connection open.
\<close>

theorem bye_response_session_continues_counterexample:
  "IsBye EppOkBye \<and> Code EppOkBye = 1500
   \<and> run (logging_session None)
       [\<lparr>selected = default_case, arrives = frame (bytes_of ''<epp/>'')\<rparr>,
        \<lparr>selected = default_case, arrives = frame (bytes_of ''<epp/>'')\<rparr>]
     = (Looping,
        (logging_session None)
          \<lparr>conn := greeted_conn\<lparr>outgoing := frame (bytes_of ''<greeting/>'')
                                            @ frame bye_response @ frame bye_response\<rparr>,
            user := [''observer 1'', ''observer 2'', ''handler'',
                     ''observer 1'', ''observer 2'', ''handler'']\<rparr>)"
proof -
  have g: "run_greeting (logging_session None)
             = (Looping, (logging_session None)\<lparr>conn := greeted_conn\<rparr>)"
    using run_greeting_logging [of None] by (simp add: greeted_conn_def)
  have l: "length (bytes_of ''<epp/>'') \<le> 2 ^ 32 - 5" by (simp add: length_bytes_of)
  have s1: "loop_body ((logging_session None)\<lparr>conn := greeted_conn\<rparr>)
              \<lparr>selected = default_case, arrives = frame (bytes_of ''<epp/>'')\<rparr>
            = (Looping,
               (logging_session None)
                 \<lparr>conn := greeted_conn\<lparr>outgoing := frame (bytes_of ''<greeting/>'')
                                                   @ frame bye_response\<rparr>,
                   user := [''observer 1'', ''observer 2'', ''handler'']\<rparr>)"
    by (subst loop_body_bye_response [OF l])
       (simp_all add: logging_session_def greeted_conn_def fresh_conn_def)
  have s2: "loop_body ((logging_session None)
                 \<lparr>conn := greeted_conn\<lparr>outgoing := frame (bytes_of ''<greeting/>'')
                                                   @ frame bye_response\<rparr>,
                   user := [''observer 1'', ''observer 2'', ''handler'']\<rparr>)
              \<lparr>selected = default_case, arrives = frame (bytes_of ''<epp/>'')\<rparr>
            = (Looping,
               (logging_session None)
                 \<lparr>conn := greeted_conn\<lparr>outgoing := frame (bytes_of ''<greeting/>'')
                                            @ frame bye_response @ frame bye_response\<rparr>,
                   user := [''observer 1'', ''observer 2'', ''handler'',
                            ''observer 1'', ''observer 2'', ''handler'']\<rparr>)"
    by (subst loop_body_bye_response [OF l])
       (simp_all add: logging_session_def greeted_conn_def fresh_conn_def)
  show ?thesis
    by (simp add: run_def deferred_Close_def g s1 s2 IsBye_iff EppOkBye_def Code_def)
qed

end
